theory Spec2Isabelle
  imports Main
begin

section \<open>JavaScript values\<close>

text \<open>
  The component of \<^verbatim>\<open>src/components/modals/message-modal.tsx\<close> keeps values that
  are a string, \<^verbatim>\<open>null\<close> or \<^verbatim>\<open>undefined\<close>, and branches on their
  truthiness. A value of that kind is a \<open>'a js\<close>.
\<close>

datatype 'a js = Undefined | Null | Val 'a

text \<open>Truthiness of a string-or-nullish value: only a non-empty string is truthy.\<close>

fun truthy :: "string js \<Rightarrow> bool" where
  "truthy (Val s) = (s \<noteq> [])"
| "truthy Null = False"
| "truthy Undefined = False"

text \<open>Truthiness of an object-or-nullish value (a \<^verbatim>\<open>Date\<close>): every object is truthy.\<close>

fun truthyObj :: "'a js \<Rightarrow> bool" where
  "truthyObj (Val d) = True"
| "truthyObj Null = False"
| "truthyObj Undefined = False"

text \<open>\<^verbatim>\<open>x ??= d\<close>: only \<^verbatim>\<open>null\<close> and \<^verbatim>\<open>undefined\<close> are replaced.\<close>

fun nullishAssign :: "'a js \<Rightarrow> 'a \<Rightarrow> 'a js" where
  "nullishAssign (Val v) d = Val v"
| "nullishAssign Null d = Val d"
| "nullishAssign Undefined d = Val d"

text \<open>A nullable column of the data store reads as the value or \<^verbatim>\<open>null\<close>.\<close>

fun ofNullable :: "'a option \<Rightarrow> 'a js" where
  "ofNullable None = Null"
| "ofNullable (Some v) = Val v"

section \<open>Data model\<close>

text \<open>
  The enumeration \<^verbatim>\<open>LoadBalancerAlgorithm\<close> of \<^verbatim>\<open>@/src/core/definitions\<close>. The source
  uses its three members as dropdown keys and as form values; the string each member
  stands for is declared outside the component and is a parameter (\<open>algorithmValue\<close>
  below).
\<close>

datatype LoadBalancerAlgorithm =
  RandomKeyOnEachConnection | RandomServerKeyOnEachConnection | UserIpAddress

text \<open>
  Modelled from the spec: the record type \<^verbatim>\<open>DynamicAccessKey\<close> is declared by the data
  store's client, outside the sources. By the data model it has a name, a path, a
  load-balancer algorithm, an optional expiration timestamp, an optional prefix type and
  an identifier; these are the fields the component reads (lines 100 and 146 to 160). An
  optional column without a value reads \<^verbatim>\<open>null\<close>. The algorithm is kept as the string
  the component puts into its string-typed state and form.
\<close>

record 'd DynamicAccessKey =
  key_id :: int
  key_name :: string
  key_path :: string
  key_loadBalancerAlgorithm :: string
  key_expiresAt :: "'d option"
  key_prefix :: "string option"

text \<open>
  The form's managed record, \<^verbatim>\<open>NewDynamicAccessKeyRequest | EditDynamicAccessKeyRequest\<close>:
  what \<^verbatim>\<open>form.reset\<close> and \<^verbatim>\<open>form.setValue\<close> write and what
  \<^verbatim>\<open>actualSubmit\<close> receives. A property that is absent reads \<open>Undefined\<close>.
\<close>

record 'd request =
  name :: "string js"
  path :: "string js"
  loadBalancerAlgorithm :: "string js"
  expiresAt :: "'d js"
  prefix :: "string js"
  id_field :: "int js"

text \<open>An entry of the static table \<^verbatim>\<open>AccessKeyPrefixes\<close> and its recommended ports.\<close>

record port =
  number :: nat
  description :: string

record AccessKeyPrefix =
  prefix_type :: string
  recommendedPorts :: "port list"

text \<open>
  The collaborators that live outside the component: the libraries \<^verbatim>\<open>slugify\<close> and
  \<^verbatim>\<open>moment\<close>, the \<^verbatim>\<open>toString\<close> of a thrown value, the enumerations' string values
  and the prefix table. \<open>momentToDate s\<close> is \<^verbatim>\<open>moment(s, "YYYY-MM-DD").toDate()\<close> and
  \<open>momentFormat d\<close> is \<^verbatim>\<open>moment(d).format("YYYY-MM-DD")\<close>.
\<close>

record ('d, 'e) env =
  slugify :: "string \<Rightarrow> string"
  momentToDate :: "string \<Rightarrow> 'd"
  momentFormat :: "'d \<Rightarrow> string"
  toString :: "'e \<Rightarrow> string"
  algorithmValue :: "LoadBalancerAlgorithm \<Rightarrow> string"
  AccessKeyPrefixType_None :: string
  AccessKeyPrefixes :: "AccessKeyPrefix list"

text \<open>
  The props of \<^verbatim>\<open>DynamicAccessKeyFormModal\<close>. The disclosure's flag is part of the
  component state below; \<open>onSuccess\<close> tells whether the callback was passed.
\<close>

record 'd props =
  dynamicAccessKeyData :: "'d DynamicAccessKey option"
  onSuccess :: bool

text \<open>
  The state the component works on: the disclosure's \<^verbatim>\<open>isOpen\<close>, the four
  \<^verbatim>\<open>useState\<close> cells (lines 79 to 83) and the values held by the form library.
\<close>

record 'd component =
  isOpen :: bool
  serverError :: "string js"
  selectedExpirationDate :: "string js"
  selectedLoadBalancer :: "string js"
  selectedPrefix :: "string js"
  form :: "'d request"

text \<open>The runtime error of the source: a property read or a method call on a nullish value.\<close>

datatype js_error = TypeError

text \<open>
  What the component does to the outside, in the order it does it: the two persistence
  actions, the disclosure's \<^verbatim>\<open>onClose\<close> and \<^verbatim>\<open>onOpenChange\<close>, the
  \<^verbatim>\<open>onSuccess\<close> callback, and the promise of \<^verbatim>\<open>actualSubmit\<close> rejecting with an
  error that nothing handles.
\<close>

datatype 'd call =
  UpdateDynamicAccessKey "'d request"
| CreateDynamicAccessKey "'d request"
| OnClose
| OnOpenChange
| OnSuccess
| Rejects js_error

section \<open>Submission\<close>

text \<open>
  \<^verbatim>\<open>actualSubmit\<close> (lines 85 to 114). \<open>uuid\<close> is what \<^verbatim>\<open>uuidv4()\<close> returns
  when it is called, \<open>outcome\<close> is how the awaited persistence action ends:
  \<open>None\<close> when it resolves, \<open>Some t\<close> when it throws \<open>t\<close>. Anything can be thrown:
  an object \<open>Val e\<close>, whose \<^verbatim>\<open>toString()\<close> is \<open>toString env e\<close>, or \<^verbatim>\<open>null\<close> or
  \<^verbatim>\<open>undefined\<close>, on which the \<^verbatim>\<open>toString()\<close> call of line 112 is itself a
  TypeError: it is thrown inside the catch block, the server error stays as line 86 set
  it and the promise of \<^verbatim>\<open>actualSubmit\<close> rejects. \<open>data\<close> is mutated in place by the
  source; the model returns the payload inside the call it is passed to.
\<close>

definition submitPath :: "('d, 'e) env \<Rightarrow> string \<Rightarrow> string js \<Rightarrow> string js" where
  "submitPath env uuid p =
     (if \<not> truthy p then Val uuid
      else (case p of Val s \<Rightarrow> Val (slugify env s) | _ \<Rightarrow> Val uuid))"

definition settled :: "('d, 'e) env \<Rightarrow> 'd props \<Rightarrow> 'e js option \<Rightarrow> 'd call \<Rightarrow> 'd component \<Rightarrow>
    'd component \<times> 'd call list" where
  "settled env props outcome action c =
     (case outcome of
        None \<Rightarrow>
          (c\<lparr>isOpen := False\<rparr>,
           [action, OnClose] @ (if onSuccess props then [OnSuccess] else []))
      | Some (Val error) \<Rightarrow>
          (c\<lparr>serverError := Val (toString env error)\<rparr>, [action])
      | Some Null \<Rightarrow> (c, [action, Rejects TypeError])
      | Some Undefined \<Rightarrow> (c, [action, Rejects TypeError]))"

definition actualSubmit :: "('d, 'e) env \<Rightarrow> 'd props \<Rightarrow> string \<Rightarrow> 'e js option \<Rightarrow> 'd request \<Rightarrow>
    'd component \<Rightarrow> 'd component \<times> 'd call list" where
  "actualSubmit env props uuid outcome data c =
     (let c0 = c\<lparr>serverError := Val []\<rparr>;
          data1 = data\<lparr>loadBalancerAlgorithm :=
                    nullishAssign (loadBalancerAlgorithm data)
                      (algorithmValue env RandomKeyOnEachConnection)\<rparr>;
          data2 = data1\<lparr>path := submitPath env uuid (path data1)\<rparr>
      in case dynamicAccessKeyData props of
           Some k \<Rightarrow>
             (let updateData = data2\<lparr>id_field := Val (key_id k)\<rparr>
              in settled env props outcome (UpdateDynamicAccessKey updateData) c0)
         | None \<Rightarrow> settled env props outcome (CreateDynamicAccessKey data2) c0)"

text \<open>The payload of a call to a persistence action.\<close>

fun payload :: "'d call \<Rightarrow> 'd request option" where
  "payload (UpdateDynamicAccessKey r) = Some r"
| "payload (CreateDynamicAccessKey r) = Some r"
| "payload OnClose = None"
| "payload OnOpenChange = None"
| "payload OnSuccess = None"
| "payload (Rejects e) = None"

definition payloads :: "'d call list \<Rightarrow> 'd request list" where
  "payloads cs = List.map_filter payload cs"

section \<open>Effects\<close>

text \<open>
  The four \<^verbatim>\<open>useEffect\<close> bodies (lines 116 to 175), in the order the component
  declares them. Each reads the state of the render it belongs to and writes the form;
  the last one also sets state cells.
\<close>

definition expirationEffect :: "('d, 'e) env \<Rightarrow> 'd component \<Rightarrow> 'd component" where
  "expirationEffect env c =
     (let v = (if truthy (selectedExpirationDate c)
               then (case selectedExpirationDate c of
                       Val s \<Rightarrow> Val (momentToDate env s) | _ \<Rightarrow> Null)
               else Null)
      in c\<lparr>form := (form c)\<lparr>expiresAt := v\<rparr>\<rparr>)"

definition loadBalancerEffect :: "('d, 'e) env \<Rightarrow> 'd component \<Rightarrow> 'd component" where
  "loadBalancerEffect env c =
     (if truthy (selectedLoadBalancer c)
      then c\<lparr>form := (form c)\<lparr>loadBalancerAlgorithm := selectedLoadBalancer c\<rparr>\<rparr>
      else c\<lparr>form := (form c)\<lparr>loadBalancerAlgorithm :=
               Val (algorithmValue env RandomKeyOnEachConnection)\<rparr>\<rparr>)"

definition prefixEffect :: "'d component \<Rightarrow> 'd component" where
  "prefixEffect c = c\<lparr>form := (form c)\<lparr>prefix := selectedPrefix c\<rparr>\<rparr>"

definition openEffect :: "('d, 'e) env \<Rightarrow> 'd props \<Rightarrow> 'd component \<Rightarrow> 'd component" where
  "openEffect env props c =
     (if isOpen c then
        (case dynamicAccessKeyData props of
           Some k \<Rightarrow>
             c\<lparr>serverError := Val [],
               form := \<lparr>name = Val (key_name k),
                        path = Val (key_path k),
                        loadBalancerAlgorithm = Val (key_loadBalancerAlgorithm k),
                        expiresAt = ofNullable (key_expiresAt k),
                        prefix = ofNullable (key_prefix k),
                        id_field = Undefined\<rparr>,
               selectedExpirationDate :=
                 (if truthyObj (ofNullable (key_expiresAt k))
                  then (case key_expiresAt k of
                          Some d \<Rightarrow> Val (momentFormat env d) | None \<Rightarrow> Undefined)
                  else Undefined),
               selectedLoadBalancer := Val (key_loadBalancerAlgorithm k),
               selectedPrefix := ofNullable (key_prefix k)\<rparr>
         | None \<Rightarrow>
             c\<lparr>serverError := Val [],
               form := \<lparr>name = Val [],
                        path = Val [],
                        loadBalancerAlgorithm = Val (algorithmValue env RandomKeyOnEachConnection),
                        expiresAt = Null,
                        prefix = Null,
                        id_field = Undefined\<rparr>,
               selectedExpirationDate := Undefined,
               selectedLoadBalancer := Null,
               selectedPrefix := Null\<rparr>)
      else c)"

text \<open>
  One pass of effects after a render: an effect runs when one of its dependencies differs
  from the render before (\<open>prev\<close>). The three selection effects write only the form and
  the open effect reads only the props and the flag, so running them one after the other
  on the same state is what the closures of one render do.
\<close>

definition runEffects :: "('d, 'e) env \<Rightarrow> 'd props \<Rightarrow> 'd component \<Rightarrow> 'd component \<Rightarrow>
    'd component" where
  "runEffects env props prev c =
     (let c1 = (if selectedExpirationDate c \<noteq> selectedExpirationDate prev
                then expirationEffect env c else c);
          c2 = (if selectedLoadBalancer c \<noteq> selectedLoadBalancer prev
                then loadBalancerEffect env c1 else c1);
          c3 = (if selectedPrefix c \<noteq> selectedPrefix prev
                then prefixEffect c2 else c2);
          c4 = (if isOpen c \<noteq> isOpen prev
                then openEffect env props c3 else c3)
      in c4)"

text \<open>
  A state change renders the component again and runs the effects whose dependencies
  changed. The open effect sets state cells, so a second render and a second pass
  follow; that pass sets no state cell (lemma \<open>runEffects_stable\<close>), and the component
  is at rest after it.
\<close>

definition commit :: "('d, 'e) env \<Rightarrow> 'd props \<Rightarrow> 'd component \<Rightarrow> 'd component \<Rightarrow>
    'd component" where
  "commit env props prev c =
     (let c' = runEffects env props prev c in runEffects env props c c')"

text \<open>The state of the first render: \<^verbatim>\<open>useState\<close> defaults and an empty form.\<close>

definition initial :: "bool \<Rightarrow> 'd component" where
  "initial b =
     \<lparr>isOpen = b,
      serverError = Undefined,
      selectedExpirationDate = Undefined,
      selectedLoadBalancer = Null,
      selectedPrefix = Null,
      form = \<lparr>name = Undefined, path = Undefined, loadBalancerAlgorithm = Undefined,
              expiresAt = Undefined, prefix = Undefined, id_field = Undefined\<rparr>\<rparr>"

text \<open>Mounting runs every effect once, then the pass for what the open effect changed.\<close>

definition mount :: "('d, 'e) env \<Rightarrow> 'd props \<Rightarrow> bool \<Rightarrow> 'd component" where
  "mount env props b =
     (let c = initial b;
          c' = openEffect env props
                 (prefixEffect (loadBalancerEffect env (expirationEffect env c)))
      in runEffects env props c c')"

section \<open>Events\<close>

text \<open>
  What can happen to a mounted component: the parent opens the disclosure; the Cancel
  button (line 319) calls the disclosure's \<^verbatim>\<open>onClose\<close>; the modal is dismissed and
  calls the disclosure's \<^verbatim>\<open>onOpenChange\<close> (line 178); the two registered inputs
  change; the date picker reports a value; the delete button is pressed; an item of one
  of the two dropdowns is selected (\<open>None\<close>: the selected item is deselected and
  \<^verbatim>\<open>currentKey\<close> is \<^verbatim>\<open>null\<close>); the form is submitted, with the value
  \<^verbatim>\<open>uuidv4()\<close> would return and the way the persistence action ends.
\<close>

datatype 'e event =
  Open
| Cancel
| Dismiss
| InputName string
| InputPath string
| ChangeDate "string js"
| DeleteDate
| SelectLoadBalancer "LoadBalancerAlgorithm option"
| SelectPrefix "AccessKeyPrefix option"
| Submit string "'e js option"

text \<open>The key of a prefix dropdown item (line 294).\<close>

definition prefixKey :: "('d, 'e) env \<Rightarrow> AccessKeyPrefix \<Rightarrow> string" where
  "prefixKey env p =
     (if prefix_type p = AccessKeyPrefixType_None env then [] else prefix_type p)"

text \<open>
  The rules the two inputs are registered with (lines 203 to 206 and 216 to 219):
  \<^verbatim>\<open>handleSubmit\<close> calls \<^verbatim>\<open>actualSubmit\<close> only when they hold.
\<close>

fun jsLength :: "string js \<Rightarrow> nat" where
  "jsLength (Val s) = length s"
| "jsLength Null = 0"
| "jsLength Undefined = 0"

definition validate :: "'d request \<Rightarrow> bool" where
  "validate r = (truthy (name r) \<and> jsLength (name r) \<le> 64 \<and> jsLength (path r) \<le> 120)"

text \<open>
  The handler of an event: the state it sets and the calls it makes, before the
  component renders again. The delete button is rendered only while a date is selected
  (line 223). A dropdown offers the three algorithms, or the entries of the prefix
  table. \<^verbatim>\<open>handleSubmit\<close> hands \<^verbatim>\<open>actualSubmit\<close> a copy of the form's values, so
  what \<^verbatim>\<open>actualSubmit\<close> writes into its argument stays out of the form. The awaited
  action is taken to end before the next event. After a submission whose promise
  rejects, the runs below let the component go on from the state the rejection left.
\<close>

fun handle :: "('d, 'e) env \<Rightarrow> 'd props \<Rightarrow> 'e event \<Rightarrow> 'd component \<Rightarrow>
    'd component \<times> 'd call list" where
  "handle env props Open c = (c\<lparr>isOpen := True\<rparr>, [])"
| "handle env props Cancel c = (c\<lparr>isOpen := False\<rparr>, [OnClose])"
| "handle env props Dismiss c = (c\<lparr>isOpen := False\<rparr>, [OnOpenChange])"
| "handle env props (InputName s) c = (c\<lparr>form := (form c)\<lparr>name := Val s\<rparr>\<rparr>, [])"
| "handle env props (InputPath s) c = (c\<lparr>form := (form c)\<lparr>path := Val s\<rparr>\<rparr>, [])"
| "handle env props (ChangeDate v) c = (c\<lparr>selectedExpirationDate := v\<rparr>, [])"
| "handle env props DeleteDate c =
     (if truthy (selectedExpirationDate c) then c\<lparr>selectedExpirationDate := Undefined\<rparr> else c,
      [])"
| "handle env props (SelectLoadBalancer None) c = (c\<lparr>selectedLoadBalancer := Null\<rparr>, [])"
| "handle env props (SelectLoadBalancer (Some a)) c =
     (c\<lparr>selectedLoadBalancer := Val (algorithmValue env a)\<rparr>, [])"
| "handle env props (SelectPrefix None) c = (c\<lparr>selectedPrefix := Null\<rparr>, [])"
| "handle env props (SelectPrefix (Some p)) c =
     (if p \<in> set (AccessKeyPrefixes env)
      then c\<lparr>selectedPrefix := Val (prefixKey env p)\<rparr> else c,
      [])"
| "handle env props (Submit uuid outcome) c =
     (if validate (form c) then actualSubmit env props uuid outcome (form c) c else (c, []))"

text \<open>
  A step: a closed dialog renders no control, so only \<open>Open\<close> acts on it; otherwise the
  handler runs and the component renders and runs its effects until it is at rest.
\<close>

definition step :: "('d, 'e) env \<Rightarrow> 'd props \<Rightarrow> 'e event \<Rightarrow> 'd component \<Rightarrow>
    'd component \<times> 'd call list" where
  "step env props ev c =
     (if \<not> isOpen c \<and> ev \<noteq> Open then (c, [])
      else (let (c1, calls) = handle env props ev c
            in (commit env props c c1, calls)))"

text \<open>A run: the events in order, each with the props of its render.\<close>

fun run :: "('d, 'e) env \<Rightarrow> ('d props \<times> 'e event) list \<Rightarrow> 'd component \<Rightarrow>
    'd component \<times> 'd call list" where
  "run env [] c = (c, [])"
| "run env ((props, ev) # rest) c =
     (let (c1, calls1) = step env props ev c;
          (c2, calls2) = run env rest c1
      in (c2, calls1 @ calls2))"

section \<open>Rendering\<close>

text \<open>
  The parts of the rendered dialog (lines 177 to 335) that depend on the state: the
  error block, the delete button, the two trigger labels and the recommended-ports
  panel. Looking up a selected prefix that the table lacks dereferences
  \<^verbatim>\<open>undefined\<close> (the \<^verbatim>\<open>!\<close> of line 308) and the render throws.
\<close>

record view =
  errorPanel :: "(string \<times> string) option"
  deleteButton :: bool
  loadBalancerLabel :: string
  prefixLabel :: string
  portsPanel :: "port list option"

definition recommendedPortsPanel :: "('d, 'e) env \<Rightarrow> string js \<Rightarrow> js_error + port list option" where
  "recommendedPortsPanel env sel =
     (if truthy sel then
        (case find (\<lambda>x. Val (prefix_type x) = sel) (AccessKeyPrefixes env) of
           Some p \<Rightarrow> Inr (Some (recommendedPorts p))
         | None \<Rightarrow> Inl TypeError)
      else Inr None)"

definition label :: "string \<Rightarrow> string \<Rightarrow> string js \<Rightarrow> string" where
  "label selected placeholder sel =
     (if truthy sel then (case sel of Val s \<Rightarrow> selected @ s | _ \<Rightarrow> placeholder)
      else placeholder)"

definition errorBlock :: "'d props \<Rightarrow> 'd component \<Rightarrow> (string \<times> string) option" where
  "errorBlock props c =
     (if truthy (serverError c)
      then (case serverError c of
              Val s \<Rightarrow>
                Some (''Could not ''
                        @ (if dynamicAccessKeyData props \<noteq> None then ''edit'' else ''create'')
                        @ '' dynamic access key. Something went wrong.'', s)
            | _ \<Rightarrow> None)
      else None)"

definition render :: "('d, 'e) env \<Rightarrow> 'd props \<Rightarrow> 'd component \<Rightarrow> js_error + view" where
  "render env props c =
     (case recommendedPortsPanel env (selectedPrefix c) of
        Inl e \<Rightarrow> Inl e
      | Inr ports \<Rightarrow>
          Inr \<lparr>errorPanel = errorBlock props c,
               deleteButton = truthy (selectedExpirationDate c),
               loadBalancerLabel =
                 label ''Selected algo: '' ''Load balancer algorithm'' (selectedLoadBalancer c),
               prefixLabel = label ''Selected prefix: '' ''Prefix'' (selectedPrefix c),
               portsPanel = ports\<rparr>)"

section \<open>The message modal\<close>

text \<open>
  \<^verbatim>\<open>MessageModal\<close> (lines 14 to 35): the attributes it passes to the modal and the
  button of its footer. \<open>mm_isDismissable = None\<close> is the prop left out.
\<close>

record messageProps =
  mm_isOpen :: bool
  mm_title :: "string js"
  mm_body :: "string js"
  mm_isDismissable :: "bool option"

datatype handler = DisclosureOnClose

record modal =
  hideCloseButton :: bool
  isDismissable :: bool
  isKeyboardDismissDisabled :: bool
  modalIsOpen :: bool
  modalHeader :: "string option"
  modalBody :: "string option"
  footerButtons :: "(string \<times> handler) list"

definition shown :: "string js \<Rightarrow> string option" where
  "shown v = (if truthy v then (case v of Val s \<Rightarrow> Some s | _ \<Rightarrow> None) else None)"

definition MessageModal :: "messageProps \<Rightarrow> modal" where
  "MessageModal p =
     (let isDismissable = (case mm_isDismissable p of None \<Rightarrow> False | Some b \<Rightarrow> b)
      in \<lparr>hideCloseButton = \<not> isDismissable,
          isDismissable = isDismissable,
          isKeyboardDismissDisabled = \<not> isDismissable,
          modalIsOpen = mm_isOpen p,
          modalHeader = shown (mm_title p),
          modalBody = shown (mm_body p),
          footerButtons = [(''Ok'', DisclosureOnClose)]\<rparr>)"

text \<open>
  Not part of the sources: the modal library (\<^verbatim>\<open>@heroui/react\<close>), which renders the
  dialog around the children \<^verbatim>\<open>MessageModal\<close> gives it. Its dialog content holds a
  visually hidden dismiss button before the children and one after them, each closing
  the modal whatever the three attributes are, and the close button unless
  \<^verbatim>\<open>hideCloseButton\<close> is set. \<open>dialogControls\<close> lists the controls inside the dialog
  that close it, those of the library and the footer buttons wired to the disclosure's
  \<^verbatim>\<open>onClose\<close>. It stands for the library only where a property is shown to depend on
  it.
\<close>

datatype control = DismissButton | CloseButton | FooterButton string

definition dialogControls :: "modal \<Rightarrow> control list" where
  "dialogControls m =
     [DismissButton]
     @ (if hideCloseButton m then [] else [CloseButton])
     @ map (\<lambda>b. FooterButton (fst b)) (filter (\<lambda>b. snd b = DisclosureOnClose) (footerButtons m))
     @ [DismissButton]"

section \<open>Predicates of the properties\<close>

text \<open>The calls of a trace that reach a persistence action.\<close>

definition persistenceCalls :: "'d call list \<Rightarrow> 'd call list" where
  "persistenceCalls cs = filter (\<lambda>x. payload x \<noteq> None) cs"

text \<open>A value is one of the three members of \<^verbatim>\<open>LoadBalancerAlgorithm\<close>.\<close>

definition isAlgorithm :: "('d, 'e) env \<Rightarrow> string js \<Rightarrow> bool" where
  "isAlgorithm env v =
     (v \<in> set (map (\<lambda>a. Val (algorithmValue env a))
                  [RandomKeyOnEachConnection, RandomServerKeyOnEachConnection, UserIpAddress]))"

text \<open>
  The data model's constraint on a stored record: its load-balancer algorithm is one of
  the three enumerated values.
\<close>

definition enumerated :: "('d, 'e) env \<Rightarrow> 'd props \<Rightarrow> bool" where
  "enumerated env props =
     (case dynamicAccessKeyData props of
        None \<Rightarrow> True
      | Some k \<Rightarrow> isAlgorithm env (Val (key_loadBalancerAlgorithm k)))"

text \<open>
  Relations between the selection cells and the form that hold whenever the component
  is at rest: the form's algorithm and a selected algorithm are among the three; the
  form's algorithm is the selected one, or the default when none is selected; the form's
  expiry is \<^verbatim>\<open>null\<close> exactly when no date is selected; the form's prefix is the
  selected one.
\<close>

definition algorithmKnown :: "('d, 'e) env \<Rightarrow> 'd component \<Rightarrow> bool" where
  "algorithmKnown env c =
     (isAlgorithm env (loadBalancerAlgorithm (form c)) \<and>
      (truthy (selectedLoadBalancer c) \<longrightarrow> isAlgorithm env (selectedLoadBalancer c)))"

definition algorithmInForm :: "('d, 'e) env \<Rightarrow> 'd component \<Rightarrow> bool" where
  "algorithmInForm env c =
     (loadBalancerAlgorithm (form c) =
        (if truthy (selectedLoadBalancer c) then selectedLoadBalancer c
         else Val (algorithmValue env RandomKeyOnEachConnection)))"

definition expiresNullIffUnselected :: "'d component \<Rightarrow> bool" where
  "expiresNullIffUnselected c =
     ((expiresAt (form c) = Null) = (\<not> truthy (selectedExpirationDate c)))"

definition prefixInForm :: "'d component \<Rightarrow> bool" where
  "prefixInForm c = (prefix (form c) = selectedPrefix c)"

section \<open>Concrete instances\<close>

text \<open>
  An instance of the collaborators and of the props, on which the closed examples of the
  theorems are evaluated. Dates are written as ISO strings; the thrown values are
  strings, which are their own string representation.
\<close>

definition nonePrefix :: AccessKeyPrefix where
  "nonePrefix = \<lparr>prefix_type = ''None'', recommendedPorts = []\<rparr>"

definition httpPrefix :: AccessKeyPrefix where
  "httpPrefix =
     \<lparr>prefix_type = ''HTTP request'',
      recommendedPorts = [\<lparr>number = 80, description = ''HTTP''\<rparr>]\<rparr>"

definition exampleEnv :: "(string, string) env" where
  "exampleEnv =
     \<lparr>slugify = map (\<lambda>ch. if ch = CHR '' '' then CHR ''-'' else ch),
      momentToDate = (\<lambda>s. s @ ''T00:00''),
      momentFormat = (\<lambda>d. if d = [] then ''Invalid date'' else take 10 d),
      toString = (\<lambda>e. e),
      algorithmValue =
        (\<lambda>a. case a of
               RandomKeyOnEachConnection \<Rightarrow> ''RandomKeyOnEachConnection''
             | RandomServerKeyOnEachConnection \<Rightarrow> ''RandomServerKeyOnEachConnection''
             | UserIpAddress \<Rightarrow> ''UserIpAddress''),
      AccessKeyPrefixType_None = ''None'',
      AccessKeyPrefixes = [nonePrefix, httpPrefix]\<rparr>"

definition exampleKey :: "string DynamicAccessKey" where
  "exampleKey =
     \<lparr>key_id = 7,
      key_name = ''office'',
      key_path = ''office-key'',
      key_loadBalancerAlgorithm = ''UserIpAddress'',
      key_expiresAt = Some ''2030-01-01T15:30'',
      key_prefix = Some ''HTTP request''\<rparr>"

definition newProps :: "string props" where
  "newProps = \<lparr>dynamicAccessKeyData = None, onSuccess = True\<rparr>"

definition editProps :: "string props" where
  "editProps = \<lparr>dynamicAccessKeyData = Some exampleKey, onSuccess = False\<rparr>"

definition exampleData :: "string request" where
  "exampleData =
     \<lparr>name = Val ''office'', path = Val ''my key'', loadBalancerAlgorithm = Undefined,
      expiresAt = Null, prefix = Null, id_field = Undefined\<rparr>"

text \<open>
  A session on a new record: the dialog is opened, every field is filled in, the
  persistence action throws \<open>''boom''\<close>, and the dialog is closed with Cancel.
\<close>

definition closedSession :: "string component" where
  "closedSession =
     fst (run exampleEnv
            [(newProps, Open),
             (newProps, InputName ''office''),
             (newProps, ChangeDate (Val ''2030-01-01'')),
             (newProps, SelectLoadBalancer (Some UserIpAddress)),
             (newProps, SelectPrefix (Some httpPrefix)),
             (newProps, Submit ''3f2a'' (Some (Val ''boom''))),
             (newProps, Cancel)]
            (mount exampleEnv newProps False))"



text \<open>A stored record whose algorithm is none of the three, opened for editing and saved.\<close>

definition bogusProps :: "string props" where
  "bogusProps =
     \<lparr>dynamicAccessKeyData = Some (exampleKey\<lparr>key_loadBalancerAlgorithm := ''bogus''\<rparr>),
      onSuccess = False\<rparr>"

definition bogusSession :: "string component \<times> string call list" where
  "bogusSession =
     run exampleEnv [(bogusProps, Open), (bogusProps, Submit ''3f2a'' None)]
       (mount exampleEnv bogusProps False)"


text \<open>The record \<open>exampleKey\<close> opened for editing, with a name typed over the old one.\<close>

definition openedForEdit :: "string component" where
  "openedForEdit =
     fst (run exampleEnv [(editProps, Open), (editProps, InputName ''office 2'')]
            (mount exampleEnv editProps False))"

text \<open>A new record, opened and named, with no algorithm selected.\<close>

definition openedForNew :: "string component" where
  "openedForNew =
     fst (run exampleEnv [(newProps, Open), (newProps, InputName ''office'')]
            (mount exampleEnv newProps False))"

text \<open>An open dialog with a valid form and a selected date.\<close>

definition filledDialog :: "string component" where
  "filledDialog =
     (initial True)\<lparr>selectedExpirationDate := Val ''2030-01-01'',
                     form := exampleData\<lparr>expiresAt := Val ''2030-01-01T00:00''\<rparr>\<rparr>"

text \<open>A message with a title and no body, and the dismissable prop left out.\<close>

definition plainMessage :: messageProps where
  "plainMessage =
     \<lparr>mm_isOpen = True, mm_title = Val ''Saved'', mm_body = Undefined,
      mm_isDismissable = None\<rparr>"

section \<open>What each effect reads and writes\<close>

lemma expirationEffect_cells [simp]:
  "isOpen (expirationEffect env c) = isOpen c"
  "serverError (expirationEffect env c) = serverError c"
  "selectedExpirationDate (expirationEffect env c) = selectedExpirationDate c"
  "selectedLoadBalancer (expirationEffect env c) = selectedLoadBalancer c"
  "selectedPrefix (expirationEffect env c) = selectedPrefix c"
  by (simp_all add: expirationEffect_def Let_def)

lemma expirationEffect_form [simp]:
  "name (form (expirationEffect env c)) = name (form c)"
  "path (form (expirationEffect env c)) = path (form c)"
  "loadBalancerAlgorithm (form (expirationEffect env c)) = loadBalancerAlgorithm (form c)"
  "prefix (form (expirationEffect env c)) = prefix (form c)"
  "id_field (form (expirationEffect env c)) = id_field (form c)"
  by (simp_all add: expirationEffect_def Let_def)

lemma expirationEffect_expiresAt:
  "expiresAt (form (expirationEffect env c)) =
     (case selectedExpirationDate c of
        Val s \<Rightarrow> if s = [] then Null else Val (momentToDate env s)
      | _ \<Rightarrow> Null)"
  by (simp add: expirationEffect_def Let_def split: js.splits)

lemma loadBalancerEffect_cells [simp]:
  "isOpen (loadBalancerEffect env c) = isOpen c"
  "serverError (loadBalancerEffect env c) = serverError c"
  "selectedExpirationDate (loadBalancerEffect env c) = selectedExpirationDate c"
  "selectedLoadBalancer (loadBalancerEffect env c) = selectedLoadBalancer c"
  "selectedPrefix (loadBalancerEffect env c) = selectedPrefix c"
  by (simp_all add: loadBalancerEffect_def)

lemma loadBalancerEffect_form [simp]:
  "name (form (loadBalancerEffect env c)) = name (form c)"
  "path (form (loadBalancerEffect env c)) = path (form c)"
  "expiresAt (form (loadBalancerEffect env c)) = expiresAt (form c)"
  "prefix (form (loadBalancerEffect env c)) = prefix (form c)"
  "id_field (form (loadBalancerEffect env c)) = id_field (form c)"
  by (simp_all add: loadBalancerEffect_def)

lemma loadBalancerEffect_algorithm:
  "loadBalancerAlgorithm (form (loadBalancerEffect env c)) =
     (if truthy (selectedLoadBalancer c) then selectedLoadBalancer c
      else Val (algorithmValue env RandomKeyOnEachConnection))"
  by (simp add: loadBalancerEffect_def)

lemma prefixEffect_cells [simp]:
  "isOpen (prefixEffect c) = isOpen c"
  "serverError (prefixEffect c) = serverError c"
  "selectedExpirationDate (prefixEffect c) = selectedExpirationDate c"
  "selectedLoadBalancer (prefixEffect c) = selectedLoadBalancer c"
  "selectedPrefix (prefixEffect c) = selectedPrefix c"
  by (simp_all add: prefixEffect_def)

lemma prefixEffect_form [simp]:
  "name (form (prefixEffect c)) = name (form c)"
  "path (form (prefixEffect c)) = path (form c)"
  "loadBalancerAlgorithm (form (prefixEffect c)) = loadBalancerAlgorithm (form c)"
  "expiresAt (form (prefixEffect c)) = expiresAt (form c)"
  "id_field (form (prefixEffect c)) = id_field (form c)"
  "prefix (form (prefixEffect c)) = selectedPrefix c"
  by (simp_all add: prefixEffect_def)

lemma openEffect_closed [simp]: "\<not> isOpen c \<Longrightarrow> openEffect env props c = c"
  by (simp add: openEffect_def)

lemma openEffect_isOpen [simp]: "isOpen (openEffect env props c) = isOpen c"
  by (simp add: openEffect_def split: option.splits)

section \<open>Passes of effects\<close>

lemma runEffects_unfold:
  "runEffects env props prev c =
     (let c1 = (if selectedExpirationDate c \<noteq> selectedExpirationDate prev
                then expirationEffect env c else c);
          c2 = (if selectedLoadBalancer c \<noteq> selectedLoadBalancer prev
                then loadBalancerEffect env c1 else c1);
          c3 = (if selectedPrefix c \<noteq> selectedPrefix prev
                then prefixEffect c2 else c2)
      in if isOpen c \<noteq> isOpen prev then openEffect env props c3 else c3)"
  by (simp add: runEffects_def Let_def)

text \<open>A pass with no dependency changed runs no effect.\<close>

lemma runEffects_same:
  "selectedExpirationDate c = selectedExpirationDate prev \<Longrightarrow>
   selectedLoadBalancer c = selectedLoadBalancer prev \<Longrightarrow>
   selectedPrefix c = selectedPrefix prev \<Longrightarrow>
   isOpen c = isOpen prev \<Longrightarrow>
   runEffects env props prev c = c"
  by (simp add: runEffects_def)

text \<open>Only the open effect sets state cells, and only when the flag changed.\<close>

lemma runEffects_cells_same:
  "isOpen c = isOpen prev \<Longrightarrow> serverError (runEffects env props prev c) = serverError c"
  "isOpen c = isOpen prev \<Longrightarrow>
     selectedExpirationDate (runEffects env props prev c) = selectedExpirationDate c"
  "isOpen c = isOpen prev \<Longrightarrow>
     selectedLoadBalancer (runEffects env props prev c) = selectedLoadBalancer c"
  "isOpen c = isOpen prev \<Longrightarrow> selectedPrefix (runEffects env props prev c) = selectedPrefix c"
  by (simp_all add: runEffects_def Let_def)

lemma runEffects_isOpen [simp]: "isOpen (runEffects env props prev c) = isOpen c"
  by (simp add: runEffects_def Let_def)

text \<open>
  The pass that follows the second render changes nothing: two passes bring the
  component to rest.
\<close>

lemma runEffects_stable:
  "runEffects env props (runEffects env props prev c)
     (runEffects env props c (runEffects env props prev c)) =
   runEffects env props c (runEffects env props prev c)"
  by (rule runEffects_same) (simp_all add: runEffects_cells_same)

lemma commit_cells_same:
  "isOpen c = isOpen prev \<Longrightarrow> serverError (commit env props prev c) = serverError c"
  "isOpen c = isOpen prev \<Longrightarrow>
     selectedExpirationDate (commit env props prev c) = selectedExpirationDate c"
  "isOpen c = isOpen prev \<Longrightarrow>
     selectedLoadBalancer (commit env props prev c) = selectedLoadBalancer c"
  "isOpen c = isOpen prev \<Longrightarrow> selectedPrefix (commit env props prev c) = selectedPrefix c"
  by (simp_all add: commit_def Let_def runEffects_cells_same)

lemma commit_isOpen [simp]: "isOpen (commit env props prev c) = isOpen c"
  by (simp add: commit_def Let_def)

text \<open>When the flag did not change, the first pass sets no state cell and is the last.\<close>

lemma commit_same_flag:
  "isOpen c = isOpen prev \<Longrightarrow> commit env props prev c = runEffects env props prev c"
  by (simp add: commit_def Let_def runEffects_same runEffects_cells_same)

lemma runEffects_expiresAt:
  "isOpen c = isOpen prev \<Longrightarrow>
   expiresAt (form (runEffects env props prev c)) =
     (if selectedExpirationDate c \<noteq> selectedExpirationDate prev
      then expiresAt (form (expirationEffect env c)) else expiresAt (form c))"
  by (simp add: runEffects_unfold Let_def)

text \<open>Closing runs the open effect with the flag down: nothing is written.\<close>

lemma commit_closing:
  "selectedExpirationDate c = selectedExpirationDate prev \<Longrightarrow>
   selectedLoadBalancer c = selectedLoadBalancer prev \<Longrightarrow>
   selectedPrefix c = selectedPrefix prev \<Longrightarrow>
   \<not> isOpen c \<Longrightarrow>
   commit env props prev c = c"
  by (simp add: commit_def Let_def runEffects_unfold runEffects_same)

section \<open>Steps and runs\<close>

lemma handle_form [simp]:
  "loadBalancerAlgorithm (form (fst (handle env props ev c))) = loadBalancerAlgorithm (form c)"
  "expiresAt (form (fst (handle env props ev c))) = expiresAt (form c)"
  "prefix (form (fst (handle env props ev c))) = prefix (form c)"
  "id_field (form (fst (handle env props ev c))) = id_field (form c)"
  by (induction env props ev c rule: handle.induct;
      simp add: actualSubmit_def settled_def Let_def split: option.splits js.splits)+

lemma step_acts:
  "isOpen c \<or> ev = Open \<Longrightarrow>
   fst (step env props ev c) = commit env props c (fst (handle env props ev c))"
  "isOpen c \<or> ev = Open \<Longrightarrow> snd (step env props ev c) = snd (handle env props ev c)"
  by (auto simp add: step_def split_beta)

lemma step_closed: "\<not> isOpen c \<Longrightarrow> ev \<noteq> Open \<Longrightarrow> step env props ev c = (c, [])"
  by (simp add: step_def)

lemma fst_run_Cons:
  "fst (run env (a # rest) c) = fst (run env rest (fst (step env (fst a) (snd a) c)))"
  by (cases a) (simp add: split_beta)

lemma snd_run_Cons:
  "snd (run env (a # rest) c) =
     snd (step env (fst a) (snd a) c) @ snd (run env rest (fst (step env (fst a) (snd a) c)))"
  by (cases a) (simp add: split_beta)

section \<open>Properties of a submission\<close>

lemma payloads_actualSubmit:
  "payloads (snd (actualSubmit env props uuid outcome data c)) =
     [(data\<lparr>loadBalancerAlgorithm :=
              nullishAssign (loadBalancerAlgorithm data)
                (algorithmValue env RandomKeyOnEachConnection),
            path := submitPath env uuid (path data)\<rparr>)
        \<lparr>id_field := (case dynamicAccessKeyData props of
                        Some k \<Rightarrow> Val (key_id k) | None \<Rightarrow> id_field data)\<rparr>]"
  by (simp add: actualSubmit_def settled_def payloads_def List.map_filter_simps Let_def
      split: option.splits js.splits)

lemma payloads_step_Submit:
  "payloads (snd (step env props (Submit uuid outcome) c)) =
     (if isOpen c \<and> validate (form c)
      then [((form c)\<lparr>loadBalancerAlgorithm :=
                nullishAssign (loadBalancerAlgorithm (form c))
                  (algorithmValue env RandomKeyOnEachConnection),
              path := submitPath env uuid (path (form c))\<rparr>)
             \<lparr>id_field := (case dynamicAccessKeyData props of
                             Some k \<Rightarrow> Val (key_id k) | None \<Rightarrow> id_field (form c))\<rparr>]
      else [])"
  by (simp add: step_def split_beta payloads_actualSubmit)
     (simp add: payloads_def List.map_filter_simps)

lemma submitPath_blank:
  "submitPath env uuid Undefined = Val uuid"
  "submitPath env uuid Null = Val uuid"
  "submitPath env uuid (Val []) = Val uuid"
  by (simp_all add: submitPath_def)

lemma submitPath_entered: "s \<noteq> [] \<Longrightarrow> submitPath env uuid (Val s) = Val (slugify env s)"
  by (simp add: submitPath_def)

text \<open>
  C1. \<^verbatim>\<open>actualSubmit\<close> passes exactly one payload to a persistence action. When the path
  it receives from the form is blank (absent, \<^verbatim>\<open>null\<close> or the empty string) the
  payload's path is the value \<^verbatim>\<open>uuidv4()\<close> returned; when a non-empty string was entered
  it is \<^verbatim>\<open>slugify\<close> of that string.
\<close>

theorem submitted_path:
  "(path data = Undefined \<or> path data = Null \<or> path data = Val [] \<longrightarrow>
      map path (payloads (snd (actualSubmit env props uuid outcome data c))) = [Val uuid]) \<and>
   (\<forall>s. s \<noteq> [] \<and> path data = Val s \<longrightarrow>
      map path (payloads (snd (actualSubmit env props uuid outcome data c))) =
        [Val (slugify env s)])"
  by (auto simp add: payloads_actualSubmit submitPath_blank submitPath_entered)

theorem submitted_path_witness:
  "map path (payloads (snd (actualSubmit exampleEnv newProps ''3f2a'' None
      (exampleData\<lparr>path := Val []\<rparr>) (initial True)))) = [Val ''3f2a''] \<and>
   map path (payloads (snd (actualSubmit exampleEnv newProps ''3f2a'' None
      exampleData (initial True)))) = [Val ''my-key'']"
  using submitted_path [where data = "exampleData\<lparr>path := Val []\<rparr>" and env = exampleEnv
      and props = newProps and uuid = "''3f2a''" and outcome = None and c = "initial True"]
    submitted_path [where data = exampleData and env = exampleEnv
      and props = newProps and uuid = "''3f2a''" and outcome = None and c = "initial True"]
  by (simp add: exampleData_def exampleEnv_def)


text \<open>
  C4. When the persistence action resolves, \<^verbatim>\<open>actualSubmit\<close> calls it, then closes the
  dialog through the disclosure, then calls \<^verbatim>\<open>onSuccess\<close> if that prop was passed, in
  this order, and the dialog is closed afterwards.
\<close>

theorem success_closes_then_notifies:
  "\<exists>action. payload action \<noteq> None \<and>
     snd (actualSubmit env props uuid None data c) =
       action # OnClose # (if onSuccess props then [OnSuccess] else []) \<and>
     \<not> isOpen (fst (actualSubmit env props uuid None data c))"
  by (simp add: actualSubmit_def settled_def Let_def split: option.splits)

theorem success_closes_then_notifies_witness:
  "(\<exists>action. payload action \<noteq> None \<and>
      snd (actualSubmit exampleEnv newProps ''3f2a'' None exampleData (initial True)) =
        [action, OnClose, OnSuccess]) \<and>
   (\<exists>action. payload action \<noteq> None \<and>
      snd (actualSubmit exampleEnv editProps ''3f2a'' None exampleData (initial True)) =
        [action, OnClose])"
  using success_closes_then_notifies [where env = exampleEnv and props = newProps
      and uuid = "''3f2a''" and data = exampleData and c = "initial True"]
    success_closes_then_notifies [where env = exampleEnv and props = editProps
      and uuid = "''3f2a''" and data = exampleData and c = "initial True"]
  by (auto simp add: newProps_def editProps_def)


text \<open>
  What the catch block does with a thrown object: the server error is its string
  representation, the error block shows it unless that string is empty, the dialog stays
  as it was and neither the disclosure's \<^verbatim>\<open>onClose\<close> nor \<^verbatim>\<open>onSuccess\<close> is called.
\<close>

lemma thrown_object_reported:
  "serverError (fst (actualSubmit env props uuid (Some (Val e)) data c)) = Val (toString env e) \<and>
   map_option snd (errorBlock props (fst (actualSubmit env props uuid (Some (Val e)) data c))) =
     (if toString env e = [] then None else Some (toString env e)) \<and>
   isOpen (fst (actualSubmit env props uuid (Some (Val e)) data c)) = isOpen c \<and>
   OnClose \<notin> set (snd (actualSubmit env props uuid (Some (Val e)) data c)) \<and>
   OnSuccess \<notin> set (snd (actualSubmit env props uuid (Some (Val e)) data c))"
  by (simp add: actualSubmit_def settled_def Let_def errorBlock_def split: option.splits)


lemma id_field_openEffect:
  "id_field (form c) = Undefined \<Longrightarrow> id_field (form (openEffect env props c)) = Undefined"
  by (simp add: openEffect_def split: option.splits)

lemma id_field_runEffects:
  "id_field (form c) = Undefined \<Longrightarrow> id_field (form (runEffects env props prev c)) = Undefined"
  by (simp add: runEffects_unfold Let_def id_field_openEffect)

lemma id_field_step:
  "id_field (form c) = Undefined \<Longrightarrow> id_field (form (fst (step env props ev c))) = Undefined"
  by (cases "isOpen c \<or> ev = Open")
     (auto simp add: step_acts step_closed commit_def Let_def id_field_runEffects)

lemma id_field_run:
  "id_field (form c) = Undefined \<Longrightarrow> id_field (form (fst (run env steps c))) = Undefined"
  by (induction steps arbitrary: c) (simp_all add: id_field_step fst_run_Cons)

lemma id_field_mount: "id_field (form (mount env props b)) = Undefined"
  by (simp add: mount_def Let_def id_field_runEffects id_field_openEffect initial_def)

text \<open>
  C5. With an existing record, \<^verbatim>\<open>actualSubmit\<close> writes that record's id into the payload
  and calls \<^verbatim>\<open>updateDynamicAccessKey\<close>, and no other persistence action. With no record
  it calls \<^verbatim>\<open>createDynamicAccessKey\<close>, and no other, with the id as it received it; the
  form never holds an id, so a created payload has none.
\<close>

theorem identifier_only_on_edit:
  "(\<forall>k. dynamicAccessKeyData props = Some k \<longrightarrow>
      (\<exists>r. persistenceCalls (snd (actualSubmit env props uuid outcome data c)) =
             [UpdateDynamicAccessKey r] \<and> id_field r = Val (key_id k))) \<and>
   (dynamicAccessKeyData props = None \<longrightarrow>
      (\<exists>r. persistenceCalls (snd (actualSubmit env props uuid outcome data c)) =
             [CreateDynamicAccessKey r] \<and> id_field r = id_field data)) \<and>
   id_field (form (fst (run env steps (mount env props0 b)))) = Undefined"
  by (simp add: id_field_run id_field_mount)
     (simp add: actualSubmit_def settled_def Let_def persistenceCalls_def split: option.splits js.splits)

theorem identifier_only_on_edit_witness:
  "map (map_option id_field \<circ> payload)
     (persistenceCalls (snd (actualSubmit exampleEnv editProps ''3f2a'' None exampleData
        (initial True)))) = [Some (Val 7)] \<and>
   map (map_option id_field \<circ> payload)
     (persistenceCalls (snd (actualSubmit exampleEnv newProps ''3f2a'' None exampleData
        (initial True)))) = [Some Undefined]"
  using identifier_only_on_edit [where env = exampleEnv and props = editProps
      and uuid = "''3f2a''" and outcome = None and data = exampleData and c = "initial True"
      and steps = "[]" and ?props0.0 = newProps and b = False]
    identifier_only_on_edit [where env = exampleEnv and props = newProps
      and uuid = "''3f2a''" and outcome = None and data = exampleData and c = "initial True"
      and steps = "[]" and ?props0.0 = newProps and b = False]
  by (auto simp add: editProps_def newProps_def exampleKey_def exampleData_def)


section \<open>Opening the dialog\<close>











text \<open>
  C6, as stated: after the dialog closes, all local state is cleared. It fails: in the
  session \<open>closedSession\<close> the dialog is closed and the form values, the three
  selections and the server error are all still there.
\<close>

theorem state_after_close_counterexample:
  "\<not> isOpen closedSession \<and>
   name (form closedSession) = Val ''office'' \<and>
   expiresAt (form closedSession) = Val ''2030-01-01T00:00'' \<and>
   selectedExpirationDate closedSession = Val ''2030-01-01'' \<and>
   selectedLoadBalancer closedSession = Val ''UserIpAddress'' \<and>
   selectedPrefix closedSession = Val ''HTTP request'' \<and>
   serverError closedSession = Val ''boom''"
  by (simp add: closedSession_def exampleEnv_def newProps_def httpPrefix_def nonePrefix_def
      mount_def initial_def step_def commit_def runEffects_def expirationEffect_def
      loadBalancerEffect_def prefixEffect_def openEffect_def prefixKey_def validate_def
      actualSubmit_def settled_def Let_def)

lemma actualSubmit_resolved:
  "fst (actualSubmit env props uuid None data c) = c\<lparr>serverError := Val [], isOpen := False\<rparr>"
  by (simp add: actualSubmit_def settled_def Let_def split: option.splits)

text \<open>
  C6, amended. Closing the dialog, by the Cancel button or by the modal, changes the open
  flag and nothing else, and a submission that succeeds changes the open flag and the
  server error (set to the empty string) and nothing else: the form values, the selected
  expiration date, the selected algorithm and the selected prefix stay as they were.
\<close>

theorem closing_keeps_state:
  "fst (step env props Cancel c) = c\<lparr>isOpen := False\<rparr> \<and>
   fst (step env props Dismiss c) = c\<lparr>isOpen := False\<rparr> \<and>
   (isOpen c \<and> validate (form c) \<longrightarrow>
      fst (step env props (Submit uuid None) c) = c\<lparr>serverError := Val [], isOpen := False\<rparr>)"
proof (intro conjI impI)
  have closed: "c\<lparr>isOpen := False\<rparr> = c" if "\<not> isOpen c"
    using that by (cases c) simp
  show "fst (step env props Cancel c) = c\<lparr>isOpen := False\<rparr>"
  proof (cases "isOpen c")
    case True
    then show ?thesis by (simp add: step_acts commit_closing)
  next
    case False
    with closed show ?thesis by (simp add: step_closed)
  qed
  show "fst (step env props Dismiss c) = c\<lparr>isOpen := False\<rparr>"
  proof (cases "isOpen c")
    case True
    then show ?thesis by (simp add: step_acts commit_closing)
  next
    case False
    with closed show ?thesis by (simp add: step_closed)
  qed
next
  assume "isOpen c \<and> validate (form c)"
  then show "fst (step env props (Submit uuid None) c) =
      c\<lparr>serverError := Val [], isOpen := False\<rparr>"
    by (simp add: step_acts actualSubmit_resolved commit_closing)
qed

theorem closing_keeps_state_witness:
  "isOpen filledDialog \<and> validate (form filledDialog) \<and>
   fst (step exampleEnv newProps Cancel filledDialog) = filledDialog\<lparr>isOpen := False\<rparr> \<and>
   fst (step exampleEnv newProps Dismiss filledDialog) = filledDialog\<lparr>isOpen := False\<rparr> \<and>
   fst (step exampleEnv newProps (Submit ''3f2a'' None) filledDialog) =
     filledDialog\<lparr>serverError := Val [], isOpen := False\<rparr> \<and>
   selectedExpirationDate (fst (step exampleEnv newProps Cancel filledDialog)) =
     Val ''2030-01-01''"
  using closing_keeps_state [where env = exampleEnv and props = newProps
      and c = filledDialog and uuid = "''3f2a''"]
  by (simp add: filledDialog_def initial_def validate_def exampleData_def)

section \<open>The optional expiry\<close>

lemma expiresNull_expirationEffect: "expiresNullIffUnselected (expirationEffect env c)"
  by (simp add: expiresNullIffUnselected_def expirationEffect_expiresAt split: js.splits)

lemma expiresNull_openEffect:
  "\<forall>d. momentFormat env d \<noteq> [] \<Longrightarrow> expiresNullIffUnselected c \<Longrightarrow>
   expiresNullIffUnselected (openEffect env props c)"
  by (simp add: expiresNullIffUnselected_def openEffect_def split: option.splits)

lemma expiresNull_runEffects:
  assumes fmt: "\<forall>d. momentFormat env d \<noteq> []"
    and pre: "selectedExpirationDate c = selectedExpirationDate prev \<Longrightarrow>
              expiresNullIffUnselected c"
  shows "expiresNullIffUnselected (runEffects env props prev c)"
proof -
  define c1 where "c1 = (if selectedExpirationDate c \<noteq> selectedExpirationDate prev
                then expirationEffect env c else c)"
  define c2 where "c2 = (if selectedLoadBalancer c \<noteq> selectedLoadBalancer prev
                then loadBalancerEffect env c1 else c1)"
  define c3 where "c3 = (if selectedPrefix c \<noteq> selectedPrefix prev
                then prefixEffect c2 else c2)"
  have 1: "expiresNullIffUnselected c1"
    using pre by (simp add: c1_def expiresNull_expirationEffect)
  have 2: "expiresNullIffUnselected c2"
    using 1 by (simp add: c2_def expiresNullIffUnselected_def)
  have 3: "expiresNullIffUnselected c3"
    using 2 by (simp add: c3_def expiresNullIffUnselected_def)
  have "runEffects env props prev c =
          (if isOpen c \<noteq> isOpen prev then openEffect env props c3 else c3)"
    by (simp add: runEffects_unfold Let_def c1_def c2_def c3_def)
  then show ?thesis
    using 3 fmt by (simp add: expiresNull_openEffect)
qed

lemma expiresNull_commit:
  "\<forall>d. momentFormat env d \<noteq> [] \<Longrightarrow>
   (selectedExpirationDate c = selectedExpirationDate prev \<Longrightarrow> expiresNullIffUnselected c) \<Longrightarrow>
   expiresNullIffUnselected (commit env props prev c)"
  by (simp add: commit_def Let_def expiresNull_runEffects)

lemma expiresNull_mount:
  "\<forall>d. momentFormat env d \<noteq> [] \<Longrightarrow> expiresNullIffUnselected (mount env props b)"
  unfolding mount_def Let_def
  by (intro expiresNull_runEffects expiresNull_openEffect)
     (simp_all add: expiresNullIffUnselected_def expirationEffect_expiresAt initial_def)

lemma expiresNull_step:
  assumes fmt: "\<forall>d. momentFormat env d \<noteq> []" and inv: "expiresNullIffUnselected c"
  shows "expiresNullIffUnselected (fst (step env props ev c))"
proof (cases "isOpen c \<or> ev = Open")
  case False
  then show ?thesis using inv by (simp add: step_closed)
next
  case True
  have "expiresNullIffUnselected (commit env props c (fst (handle env props ev c)))"
  proof (rule expiresNull_commit [OF fmt])
    assume "selectedExpirationDate (fst (handle env props ev c)) = selectedExpirationDate c"
    then show "expiresNullIffUnselected (fst (handle env props ev c))"
      using inv by (simp add: expiresNullIffUnselected_def)
  qed
  with True show ?thesis by (simp add: step_acts)
qed

lemma expiresNull_run:
  "\<forall>d. momentFormat env d \<noteq> [] \<Longrightarrow> expiresNullIffUnselected c \<Longrightarrow>
   expiresNullIffUnselected (fst (run env steps c))"
  by (induction steps arbitrary: c) (simp_all add: expiresNull_step fst_run_Cons)

text \<open>An event that moves the flag leaves the three selections to the effects.\<close>

lemma handle_flag:
  "isOpen (fst (handle env props ev c)) \<noteq> isOpen c \<Longrightarrow>
   selectedExpirationDate (fst (handle env props ev c)) = selectedExpirationDate c \<and>
   selectedLoadBalancer (fst (handle env props ev c)) = selectedLoadBalancer c \<and>
   selectedPrefix (fst (handle env props ev c)) = selectedPrefix c"
  by (induction env props ev c rule: handle.induct)
     (simp_all add: actualSubmit_def settled_def Let_def split: option.splits js.splits if_splits)

text \<open>
  Whatever the event, a selection that differs after the step from what it was before
  has been written to the form by the expiration effect.
\<close>

lemma step_expiresAt:
  assumes changed:
    "selectedExpirationDate (fst (step env props ev c)) \<noteq> selectedExpirationDate c"
  shows "expiresAt (form (fst (step env props ev c))) =
           (case selectedExpirationDate (fst (step env props ev c)) of
              Val s \<Rightarrow> if s = [] then Null else Val (momentToDate env s)
            | _ \<Rightarrow> Null)"
proof (cases "isOpen c \<or> ev = Open")
  case False
  with changed show ?thesis by (simp add: step_closed)
next
  case True
  define c1 where "c1 = fst (handle env props ev c)"
  define m where "m = runEffects env props c c1"
  have final: "fst (step env props ev c) = runEffects env props c1 m"
    using True by (simp add: step_acts commit_def Let_def c1_def m_def)
  have cells: "selectedExpirationDate (runEffects env props c1 m) = selectedExpirationDate m"
    by (simp add: runEffects_cells_same m_def)
  have second: "expiresAt (form (runEffects env props c1 m)) =
      (if selectedExpirationDate m \<noteq> selectedExpirationDate c1
       then expiresAt (form (expirationEffect env m)) else expiresAt (form m))"
    by (simp add: runEffects_expiresAt m_def)
  show ?thesis
  proof (cases "isOpen c1 = isOpen c")
    case True
    then have same: "selectedExpirationDate m = selectedExpirationDate c1"
      by (simp add: m_def runEffects_cells_same)
    with changed final cells have "selectedExpirationDate c1 \<noteq> selectedExpirationDate c"
      by simp
    with True have "expiresAt (form m) = expiresAt (form (expirationEffect env c1))"
      by (simp add: m_def runEffects_expiresAt)
    with same second final cells show ?thesis
      by (simp add: expirationEffect_expiresAt)
  next
    case False
    then have "selectedExpirationDate c1 = selectedExpirationDate c"
      using handle_flag [of env props ev c] by (simp add: c1_def)
    with changed final cells have "selectedExpirationDate m \<noteq> selectedExpirationDate c1"
      by simp
    with second final cells show ?thesis
      by (simp add: expirationEffect_expiresAt)
  qed
qed

text \<open>
  C8. In a component that was mounted and has gone through any events: whenever a step
  changes the selected expiration date, the form's expiry is the date parsed from the
  selection when a date is selected and \<^verbatim>\<open>null\<close> when none is; the delete button of
  an open dialog clears the selection and the expiry with it; and a submitted payload
  has a \<^verbatim>\<open>null\<close> expiry exactly when no date is selected. The last part rests on
  \<^verbatim>\<open>moment\<close> never formatting a date as the empty string.
\<close>

theorem expiration_follows_selection:
  fixes env :: "('d, 'e) env" and steps :: "('d props \<times> 'e event) list"
    and props0 :: "'d props" and b :: bool
  defines "c \<equiv> fst (run env steps (mount env props0 b))"
  assumes fmt: "\<forall>d. momentFormat env d \<noteq> []"
  shows "(selectedExpirationDate (fst (step env props ev c)) \<noteq> selectedExpirationDate c \<longrightarrow>
            (\<forall>s. s \<noteq> [] \<and> selectedExpirationDate (fst (step env props ev c)) = Val s \<longrightarrow>
               expiresAt (form (fst (step env props ev c))) = Val (momentToDate env s)) \<and>
            (\<not> truthy (selectedExpirationDate (fst (step env props ev c))) \<longrightarrow>
               expiresAt (form (fst (step env props ev c))) = Null)) \<and>
         (isOpen c \<and> truthy (selectedExpirationDate c) \<longrightarrow>
            selectedExpirationDate (fst (step env props DeleteDate c)) = Undefined \<and>
            expiresAt (form (fst (step env props DeleteDate c))) = Null) \<and>
         (\<forall>r \<in> set (payloads (snd (step env props (Submit uuid outcome) c))).
            (expiresAt r = Null) = (\<not> truthy (selectedExpirationDate c)))"
proof (intro conjI allI impI ballI)
  fix s
  assume "selectedExpirationDate (fst (step env props ev c)) \<noteq> selectedExpirationDate c"
    and "s \<noteq> [] \<and> selectedExpirationDate (fst (step env props ev c)) = Val s"
  then show "expiresAt (form (fst (step env props ev c))) = Val (momentToDate env s)"
    by (simp add: step_expiresAt)
next
  assume "selectedExpirationDate (fst (step env props ev c)) \<noteq> selectedExpirationDate c"
    and "\<not> truthy (selectedExpirationDate (fst (step env props ev c)))"
  then show "expiresAt (form (fst (step env props ev c))) = Null"
    by (cases "selectedExpirationDate (fst (step env props ev c))")
       (simp_all add: step_expiresAt)
next
  assume sel: "isOpen c \<and> truthy (selectedExpirationDate c)"
  then show cleared: "selectedExpirationDate (fst (step env props DeleteDate c)) = Undefined"
    by (simp add: step_acts commit_cells_same)
  from sel have "selectedExpirationDate c \<noteq> Undefined" by auto
  with cleared show "expiresAt (form (fst (step env props DeleteDate c))) = Null"
    by (simp add: step_expiresAt)
next
  fix r
  assume r: "r \<in> set (payloads (snd (step env props (Submit uuid outcome) c)))"
  have "expiresNullIffUnselected c"
    unfolding c_def by (intro expiresNull_run expiresNull_mount fmt)
  moreover from r have "expiresAt r = expiresAt (form c)"
    by (simp add: payloads_step_Submit split: if_splits)
  ultimately show "(expiresAt r = Null) = (\<not> truthy (selectedExpirationDate c))"
    by (simp add: expiresNullIffUnselected_def)
qed

text \<open>
  The state of \<open>openedForEdit\<close>. The record expires at 15:30 and the form holds the
  start of that day: opening changed the selection, and the expiration effect wrote the
  form from it.
\<close>

lemma openedForEdit_state:
  "openedForEdit =
     \<lparr>isOpen = True, serverError = Val [],
      selectedExpirationDate = Val ''2030-01-01'',
      selectedLoadBalancer = Val ''UserIpAddress'',
      selectedPrefix = Val ''HTTP request'',
      form = \<lparr>name = Val ''office 2'', path = Val ''office-key'',
               loadBalancerAlgorithm = Val ''UserIpAddress'',
               expiresAt = Val ''2030-01-01T00:00'',
               prefix = Val ''HTTP request'', id_field = Undefined\<rparr>\<rparr>"
  by (simp add: openedForEdit_def exampleEnv_def editProps_def exampleKey_def
      mount_def initial_def step_def commit_def runEffects_def expirationEffect_def
      loadBalancerEffect_def prefixEffect_def openEffect_def Let_def)

theorem expiration_follows_selection_witness:
  "(\<forall>d. momentFormat exampleEnv d \<noteq> []) \<and>
   isOpen openedForEdit \<and>
   truthy (selectedExpirationDate openedForEdit) \<and>
   selectedExpirationDate (fst (step exampleEnv editProps (ChangeDate (Val ''2031-05-05''))
     openedForEdit)) = Val ''2031-05-05'' \<and>
   expiresAt (form (fst (step exampleEnv editProps (ChangeDate (Val ''2031-05-05''))
     openedForEdit))) = Val ''2031-05-05T00:00'' \<and>
   selectedExpirationDate (fst (step exampleEnv editProps DeleteDate openedForEdit)) =
     Undefined \<and>
   expiresAt (form (fst (step exampleEnv editProps DeleteDate openedForEdit))) = Null \<and>
   map expiresAt (payloads (snd (step exampleEnv editProps (Submit ''3f2a'' None)
     openedForEdit))) = [Val ''2030-01-01T00:00'']"
proof -
  have fmt: "\<forall>d. momentFormat exampleEnv d \<noteq> []"
    by (simp add: exampleEnv_def)
  have opened: "isOpen openedForEdit" "truthy (selectedExpirationDate openedForEdit)"
    by (simp_all add: openedForEdit_state)
  have picked: "selectedExpirationDate (fst (step exampleEnv editProps
      (ChangeDate (Val ''2031-05-05'')) openedForEdit)) = Val ''2031-05-05''"
    using opened by (simp add: step_acts commit_cells_same)
  have sent: "payloads (snd (step exampleEnv editProps (Submit ''3f2a'' None) openedForEdit)) =
      [\<lparr>name = Val ''office 2'', path = Val ''office-key'',
        loadBalancerAlgorithm = Val ''UserIpAddress'',
        expiresAt = Val ''2030-01-01T00:00'',
        prefix = Val ''HTTP request'', id_field = Val 7\<rparr>]"
    by (simp add: payloads_step_Submit openedForEdit_state validate_def submitPath_def
        exampleEnv_def editProps_def exampleKey_def)
  note facts = expiration_follows_selection [where env = exampleEnv and props = editProps
      and steps = "[(editProps, Open), (editProps, InputName ''office 2'')]"
      and ?props0.0 = editProps and b = False and uuid = "''3f2a''" and outcome = None,
      OF fmt, folded openedForEdit_def]
  from facts [where ev = "ChangeDate (Val ''2031-05-05'')"] picked
  have "expiresAt (form (fst (step exampleEnv editProps
      (ChangeDate (Val ''2031-05-05'')) openedForEdit))) =
      Val (momentToDate exampleEnv ''2031-05-05'')"
    by (simp add: openedForEdit_state)
  moreover from facts [where ev = Open] opened have
    "selectedExpirationDate (fst (step exampleEnv editProps DeleteDate openedForEdit)) = Undefined"
    "expiresAt (form (fst (step exampleEnv editProps DeleteDate openedForEdit))) = Null"
    by simp_all
  ultimately show ?thesis
    using fmt opened picked sent by (simp add: exampleEnv_def)
qed

section \<open>The prefix of type None\<close>

lemma openEffect_prefix:
  "isOpen c \<Longrightarrow> prefix (form (openEffect env props c)) = selectedPrefix (openEffect env props c)"
  by (simp add: openEffect_def split: option.splits)

lemma prefixInForm_openEffect: "prefixInForm c \<Longrightarrow> prefixInForm (openEffect env props c)"
  by (cases "isOpen c") (simp_all add: prefixInForm_def openEffect_prefix)

lemma prefixInForm_runEffects:
  assumes pre: "selectedPrefix c = selectedPrefix prev \<Longrightarrow> prefixInForm c"
  shows "prefixInForm (runEffects env props prev c)"
proof -
  define c1 where "c1 = (if selectedExpirationDate c \<noteq> selectedExpirationDate prev
                then expirationEffect env c else c)"
  define c2 where "c2 = (if selectedLoadBalancer c \<noteq> selectedLoadBalancer prev
                then loadBalancerEffect env c1 else c1)"
  define c3 where "c3 = (if selectedPrefix c \<noteq> selectedPrefix prev
                then prefixEffect c2 else c2)"
  have 1: "selectedPrefix c = selectedPrefix prev \<Longrightarrow> prefixInForm c1"
    using pre by (simp add: c1_def prefixInForm_def)
  have 2: "selectedPrefix c = selectedPrefix prev \<Longrightarrow> prefixInForm c2"
    using 1 by (simp add: c2_def prefixInForm_def)
  have 3: "prefixInForm c3"
    using 2 by (simp add: c3_def c2_def c1_def prefixInForm_def)
  have "runEffects env props prev c =
          (if isOpen c \<noteq> isOpen prev then openEffect env props c3 else c3)"
    by (simp add: runEffects_unfold Let_def c1_def c2_def c3_def)
  then show ?thesis
    using 3 by (simp add: prefixInForm_openEffect)
qed

lemma prefixInForm_commit:
  "(selectedPrefix c = selectedPrefix prev \<Longrightarrow> prefixInForm c) \<Longrightarrow>
   prefixInForm (commit env props prev c)"
  by (simp add: commit_def Let_def prefixInForm_runEffects)

lemma prefixInForm_mount: "prefixInForm (mount env props b)"
  unfolding mount_def Let_def
  by (intro prefixInForm_runEffects prefixInForm_openEffect) (simp add: prefixInForm_def)

lemma prefixInForm_step:
  assumes inv: "prefixInForm c"
  shows "prefixInForm (fst (step env props ev c))"
proof (cases "isOpen c \<or> ev = Open")
  case False
  then show ?thesis using inv by (simp add: step_closed)
next
  case True
  have "prefixInForm (commit env props c (fst (handle env props ev c)))"
  proof (rule prefixInForm_commit)
    assume "selectedPrefix (fst (handle env props ev c)) = selectedPrefix c"
    then show "prefixInForm (fst (handle env props ev c))"
      using inv by (simp add: prefixInForm_def)
  qed
  with True show ?thesis by (simp add: step_acts)
qed

lemma prefixInForm_run:
  "prefixInForm c \<Longrightarrow> prefixInForm (fst (run env steps c))"
  by (induction steps arbitrary: c) (simp_all add: prefixInForm_step fst_run_Cons)

text \<open>
  C10. The dropdown item of a prefix of type \<^verbatim>\<open>AccessKeyPrefixType.None\<close> has the empty
  string as its key. Selecting it in an open dialog sets the selected prefix and the
  form's prefix to the empty string, and the render treats that as no prefix: the
  recommended-ports panel is not rendered and the trigger shows the placeholder.
\<close>

theorem none_prefix_is_no_prefix:
  fixes env :: "('d, 'e) env" and steps :: "('d props \<times> 'e event) list"
    and props0 :: "'d props" and b :: bool
  defines "c \<equiv> fst (run env steps (mount env props0 b))"
  assumes opened: "isOpen c"
    and listed: "p \<in> set (AccessKeyPrefixes env)"
    and none: "prefix_type p = AccessKeyPrefixType_None env"
  shows "prefixKey env p = [] \<and>
         selectedPrefix (fst (step env props (SelectPrefix (Some p)) c)) = Val [] \<and>
         prefix (form (fst (step env props (SelectPrefix (Some p)) c))) = Val [] \<and>
         map_sum id portsPanel (render env props (fst (step env props (SelectPrefix (Some p)) c))) =
           Inr None \<and>
         map_sum id prefixLabel (render env props (fst (step env props (SelectPrefix (Some p)) c))) =
           Inr ''Prefix''"
proof -
  let ?c' = "fst (step env props (SelectPrefix (Some p)) c)"
  have key: "prefixKey env p = []"
    using none by (simp add: prefixKey_def)
  have sel: "selectedPrefix ?c' = Val []"
    using opened listed key by (simp add: step_acts commit_cells_same)
  have "prefixInForm c"
    unfolding c_def by (intro prefixInForm_run prefixInForm_mount)
  then have "prefixInForm ?c'"
    by (rule prefixInForm_step)
  with sel have frm: "prefix (form ?c') = Val []"
    by (simp add: prefixInForm_def)
  have "render env props ?c' =
          Inr \<lparr>errorPanel = errorBlock props ?c',
               deleteButton = truthy (selectedExpirationDate ?c'),
               loadBalancerLabel =
                 label ''Selected algo: '' ''Load balancer algorithm'' (selectedLoadBalancer ?c'),
               prefixLabel = ''Prefix'',
               portsPanel = None\<rparr>"
    using sel by (simp add: render_def recommendedPortsPanel_def label_def)
  then show ?thesis
    using key sel frm by simp
qed

theorem none_prefix_is_no_prefix_witness:
  "isOpen openedForEdit \<and>
   nonePrefix \<in> set (AccessKeyPrefixes exampleEnv) \<and>
   prefix_type nonePrefix = AccessKeyPrefixType_None exampleEnv \<and>
   selectedPrefix openedForEdit = Val ''HTTP request'' \<and>
   selectedPrefix (fst (step exampleEnv editProps (SelectPrefix (Some nonePrefix))
     openedForEdit)) = Val [] \<and>
   prefix (form (fst (step exampleEnv editProps (SelectPrefix (Some nonePrefix))
     openedForEdit))) = Val [] \<and>
   map_sum id portsPanel (render exampleEnv editProps
     (fst (step exampleEnv editProps (SelectPrefix (Some nonePrefix)) openedForEdit))) =
     Inr None \<and>
   map_sum id prefixLabel (render exampleEnv editProps
     (fst (step exampleEnv editProps (SelectPrefix (Some nonePrefix)) openedForEdit))) =
     Inr ''Prefix'' \<and>
   map_sum id portsPanel (render exampleEnv editProps openedForEdit) =
     Inr (Some [\<lparr>number = 80, description = ''HTTP''\<rparr>])"
proof -
  have opened: "isOpen (fst (run exampleEnv [(editProps, Open), (editProps, InputName ''office 2'')]
      (mount exampleEnv editProps False)))"
    using openedForEdit_state by (simp add: openedForEdit_def)
  have listed: "nonePrefix \<in> set (AccessKeyPrefixes exampleEnv)"
    by (simp add: exampleEnv_def)
  have none: "prefix_type nonePrefix = AccessKeyPrefixType_None exampleEnv"
    by (simp add: exampleEnv_def nonePrefix_def)
  have before: "map_sum id portsPanel (render exampleEnv editProps openedForEdit) =
      Inr (Some [\<lparr>number = 80, description = ''HTTP''\<rparr>])"
    by (simp add: openedForEdit_state render_def recommendedPortsPanel_def exampleEnv_def
        nonePrefix_def httpPrefix_def)
  note facts = none_prefix_is_no_prefix [where env = exampleEnv and props = editProps
      and steps = "[(editProps, Open), (editProps, InputName ''office 2'')]"
      and ?props0.0 = editProps and b = False and p = nonePrefix,
      OF opened listed none, folded openedForEdit_def]
  show ?thesis
    using facts opened listed none before
    by (simp add: openedForEdit_state)
qed

section \<open>The enumerated algorithm\<close>

lemma isAlgorithm_value: "isAlgorithm env (Val (algorithmValue env a))"
  by (cases a) (simp_all add: isAlgorithm_def)

lemma isAlgorithm_cases: "isAlgorithm env v \<Longrightarrow> \<exists>a. v = Val (algorithmValue env a)"
  by (auto simp add: isAlgorithm_def)

lemma handle_selectedLoadBalancer:
  "truthy (selectedLoadBalancer c) \<longrightarrow> isAlgorithm env (selectedLoadBalancer c) \<Longrightarrow>
   truthy (selectedLoadBalancer (fst (handle env props ev c))) \<longrightarrow>
     isAlgorithm env (selectedLoadBalancer (fst (handle env props ev c)))"
  by (induction env props ev c rule: handle.induct)
     (simp_all add: isAlgorithm_value actualSubmit_def settled_def Let_def split: option.splits js.splits)

lemma algorithmKnown_openEffect:
  "enumerated env props \<Longrightarrow> algorithmKnown env c \<Longrightarrow>
   algorithmKnown env (openEffect env props c)"
  by (simp add: algorithmKnown_def openEffect_def enumerated_def isAlgorithm_value
      split: option.splits)

lemma algorithmKnown_runEffects:
  assumes rec: "enumerated env props"
    and sel: "truthy (selectedLoadBalancer c) \<longrightarrow> isAlgorithm env (selectedLoadBalancer c)"
    and pre: "selectedLoadBalancer c = selectedLoadBalancer prev \<Longrightarrow>
              isAlgorithm env (loadBalancerAlgorithm (form c))"
  shows "algorithmKnown env (runEffects env props prev c)"
proof -
  define c1 where "c1 = (if selectedExpirationDate c \<noteq> selectedExpirationDate prev
                then expirationEffect env c else c)"
  define c2 where "c2 = (if selectedLoadBalancer c \<noteq> selectedLoadBalancer prev
                then loadBalancerEffect env c1 else c1)"
  define c3 where "c3 = (if selectedPrefix c \<noteq> selectedPrefix prev
                then prefixEffect c2 else c2)"
  have 1: "selectedLoadBalancer c1 = selectedLoadBalancer c"
    "loadBalancerAlgorithm (form c1) = loadBalancerAlgorithm (form c)"
    by (simp_all add: c1_def)
  have 2: "algorithmKnown env c2"
    using sel pre 1
    by (auto simp add: c2_def algorithmKnown_def loadBalancerEffect_algorithm isAlgorithm_value)
  have 3: "algorithmKnown env c3"
    using 2 by (simp add: c3_def algorithmKnown_def)
  have "runEffects env props prev c =
          (if isOpen c \<noteq> isOpen prev then openEffect env props c3 else c3)"
    by (simp add: runEffects_unfold Let_def c1_def c2_def c3_def)
  then show ?thesis
    using 3 rec by (simp add: algorithmKnown_openEffect)
qed

lemma algorithmKnown_commit:
  assumes rec: "enumerated env props"
    and sel: "truthy (selectedLoadBalancer c) \<longrightarrow> isAlgorithm env (selectedLoadBalancer c)"
    and pre: "selectedLoadBalancer c = selectedLoadBalancer prev \<Longrightarrow>
              isAlgorithm env (loadBalancerAlgorithm (form c))"
  shows "algorithmKnown env (commit env props prev c)"
proof -
  have "algorithmKnown env (runEffects env props prev c)"
    using rec sel pre by (rule algorithmKnown_runEffects)
  then show ?thesis
    unfolding commit_def Let_def
    by (intro algorithmKnown_runEffects rec) (simp_all add: algorithmKnown_def)
qed

lemma algorithmKnown_mount:
  assumes rec: "enumerated env props"
  shows "algorithmKnown env (mount env props b)"
proof -
  let ?c = "prefixEffect (loadBalancerEffect env (expirationEffect env (initial b)))"
  have "algorithmKnown env ?c"
    by (simp add: algorithmKnown_def loadBalancerEffect_algorithm isAlgorithm_value initial_def)
  then have "algorithmKnown env (openEffect env props ?c)"
    using rec by (simp add: algorithmKnown_openEffect)
  then show ?thesis
    unfolding mount_def Let_def
    by (intro algorithmKnown_runEffects rec) (simp_all add: algorithmKnown_def)
qed

lemma algorithmKnown_step:
  assumes rec: "enumerated env props" and inv: "algorithmKnown env c"
  shows "algorithmKnown env (fst (step env props ev c))"
proof (cases "isOpen c \<or> ev = Open")
  case False
  then show ?thesis using inv by (simp add: step_closed)
next
  case True
  have "algorithmKnown env (commit env props c (fst (handle env props ev c)))"
  proof (rule algorithmKnown_commit [OF rec])
    show "truthy (selectedLoadBalancer (fst (handle env props ev c))) \<longrightarrow>
        isAlgorithm env (selectedLoadBalancer (fst (handle env props ev c)))"
      using inv by (intro handle_selectedLoadBalancer) (simp add: algorithmKnown_def)
    show "isAlgorithm env (loadBalancerAlgorithm (form (fst (handle env props ev c))))"
      using inv by (simp add: algorithmKnown_def)
  qed
  with True show ?thesis by (simp add: step_acts)
qed

lemma algorithmKnown_run:
  "\<forall>x \<in> set steps. enumerated env (fst x) \<Longrightarrow> algorithmKnown env c \<Longrightarrow>
   algorithmKnown env (fst (run env steps c))"
  by (induction steps arbitrary: c) (simp_all add: algorithmKnown_step fst_run_Cons)

lemma algorithmInForm_openEffect:
  assumes nonempty: "\<forall>a. algorithmValue env a \<noteq> []"
    and rec: "enumerated env props" and inv: "algorithmInForm env c"
  shows "algorithmInForm env (openEffect env props c)"
proof (cases "dynamicAccessKeyData props")
  case None
  then show ?thesis using inv by (simp add: algorithmInForm_def openEffect_def)
next
  case (Some k)
  with rec have "isAlgorithm env (Val (key_loadBalancerAlgorithm k))"
    by (simp add: enumerated_def)
  then obtain a where "key_loadBalancerAlgorithm k = algorithmValue env a"
    by (auto dest: isAlgorithm_cases)
  with nonempty have "key_loadBalancerAlgorithm k \<noteq> []" by simp
  with Some show ?thesis using inv by (simp add: algorithmInForm_def openEffect_def)
qed

lemma algorithmInForm_runEffects:
  assumes nonempty: "\<forall>a. algorithmValue env a \<noteq> []"
    and rec: "enumerated env props"
    and pre: "selectedLoadBalancer c = selectedLoadBalancer prev \<Longrightarrow> algorithmInForm env c"
  shows "algorithmInForm env (runEffects env props prev c)"
proof -
  define c1 where "c1 = (if selectedExpirationDate c \<noteq> selectedExpirationDate prev
                then expirationEffect env c else c)"
  define c2 where "c2 = (if selectedLoadBalancer c \<noteq> selectedLoadBalancer prev
                then loadBalancerEffect env c1 else c1)"
  define c3 where "c3 = (if selectedPrefix c \<noteq> selectedPrefix prev
                then prefixEffect c2 else c2)"
  have 1: "selectedLoadBalancer c1 = selectedLoadBalancer c"
    "loadBalancerAlgorithm (form c1) = loadBalancerAlgorithm (form c)"
    by (simp_all add: c1_def)
  have 2: "algorithmInForm env c2"
    using pre 1 by (auto simp add: c2_def algorithmInForm_def loadBalancerEffect_algorithm)
  have 3: "algorithmInForm env c3"
    using 2 by (simp add: c3_def algorithmInForm_def)
  have "runEffects env props prev c =
          (if isOpen c \<noteq> isOpen prev then openEffect env props c3 else c3)"
    by (simp add: runEffects_unfold Let_def c1_def c2_def c3_def)
  then show ?thesis
    using 3 rec nonempty by (simp add: algorithmInForm_openEffect)
qed

lemma algorithmInForm_commit:
  "\<forall>a. algorithmValue env a \<noteq> [] \<Longrightarrow> enumerated env props \<Longrightarrow>
   (selectedLoadBalancer c = selectedLoadBalancer prev \<Longrightarrow> algorithmInForm env c) \<Longrightarrow>
   algorithmInForm env (commit env props prev c)"
  by (simp add: commit_def Let_def algorithmInForm_runEffects)

lemma algorithmInForm_mount:
  assumes nonempty: "\<forall>a. algorithmValue env a \<noteq> []" and rec: "enumerated env props"
  shows "algorithmInForm env (mount env props b)"
proof -
  let ?c = "prefixEffect (loadBalancerEffect env (expirationEffect env (initial b)))"
  have "algorithmInForm env ?c"
    by (simp add: algorithmInForm_def loadBalancerEffect_algorithm)
  then have "algorithmInForm env (openEffect env props ?c)"
    using nonempty rec by (simp add: algorithmInForm_openEffect)
  then show ?thesis
    unfolding mount_def Let_def
    by (intro algorithmInForm_runEffects nonempty rec)
qed

lemma algorithmInForm_step:
  assumes nonempty: "\<forall>a. algorithmValue env a \<noteq> []"
    and rec: "enumerated env props" and inv: "algorithmInForm env c"
  shows "algorithmInForm env (fst (step env props ev c))"
proof (cases "isOpen c \<or> ev = Open")
  case False
  then show ?thesis using inv by (simp add: step_closed)
next
  case True
  have "algorithmInForm env (commit env props c (fst (handle env props ev c)))"
  proof (rule algorithmInForm_commit [OF nonempty rec])
    assume "selectedLoadBalancer (fst (handle env props ev c)) = selectedLoadBalancer c"
    then show "algorithmInForm env (fst (handle env props ev c))"
      using inv by (simp add: algorithmInForm_def)
  qed
  with True show ?thesis by (simp add: step_acts)
qed

lemma algorithmInForm_run:
  "\<forall>a. algorithmValue env a \<noteq> [] \<Longrightarrow> \<forall>x \<in> set steps. enumerated env (fst x) \<Longrightarrow>
   algorithmInForm env c \<Longrightarrow> algorithmInForm env (fst (run env steps c))"
  by (induction steps arbitrary: c) (simp_all add: algorithmInForm_step fst_run_Cons)

lemma payloads_append: "payloads (xs @ ys) = payloads xs @ payloads ys"
  by (induction xs) (simp_all add: payloads_def List.map_filter_simps split: option.splits)

lemma handle_silent:
  "\<forall>uuid outcome. ev \<noteq> Submit uuid outcome \<Longrightarrow> payloads (snd (handle env props ev c)) = []"
  by (induction env props ev c rule: handle.induct)
     (auto simp add: payloads_def List.map_filter_simps)

lemma step_silent:
  "\<forall>uuid outcome. ev \<noteq> Submit uuid outcome \<Longrightarrow> payloads (snd (step env props ev c)) = []"
  by (simp add: step_def split_beta handle_silent) (simp add: payloads_def List.map_filter_simps)

lemma step_payload_known:
  assumes inv: "algorithmKnown env c"
    and r: "r \<in> set (payloads (snd (step env props ev c)))"
  shows "isAlgorithm env (loadBalancerAlgorithm r)"
proof (cases "\<exists>uuid outcome. ev = Submit uuid outcome")
  case True
  then obtain uuid outcome where ev: "ev = Submit uuid outcome" by blast
  from inv obtain a where "loadBalancerAlgorithm (form c) = Val (algorithmValue env a)"
    by (auto simp add: algorithmKnown_def dest: isAlgorithm_cases)
  with r ev show ?thesis
    by (auto simp add: payloads_step_Submit isAlgorithm_value split: if_splits)
next
  case False
  then have "payloads (snd (step env props ev c)) = []"
    by (simp add: step_silent)
  with r show ?thesis
    by simp
qed

lemma run_payloads_known:
  "\<forall>x \<in> set steps. enumerated env (fst x) \<Longrightarrow> algorithmKnown env c \<Longrightarrow>
   r \<in> set (payloads (snd (run env steps c))) \<Longrightarrow>
   isAlgorithm env (loadBalancerAlgorithm r)"
proof (induction steps arbitrary: c)
  case Nil
  then show ?case by (simp add: payloads_def List.map_filter_simps)
next
  case (Cons a steps)
  from Cons.prems(3) consider
    "r \<in> set (payloads (snd (step env (fst a) (snd a) c)))" |
    "r \<in> set (payloads (snd (run env steps (fst (step env (fst a) (snd a) c)))))"
    by (auto simp add: snd_run_Cons payloads_append)
  then show ?case
  proof cases
    case 1
    with Cons.prems(2) show ?thesis by (rule step_payload_known)
  next
    case 2
    have "algorithmKnown env (fst (step env (fst a) (snd a) c))"
      using Cons.prems(1,2) by (simp add: algorithmKnown_step)
    with Cons.IH Cons.prems(1) 2 show ?thesis by simp
  qed
qed

text \<open>
  C2, as stated: every payload passed to a persistence action has one of the three
  enumerated values as its algorithm. It fails for a stored record whose algorithm is
  another string: the open effect copies it into the form and into the selection
  unchecked, and the payload of the update carries it.
\<close>

theorem algorithm_enumerated_counterexample:
  "map loadBalancerAlgorithm (payloads (snd bogusSession)) = [Val ''bogus''] \<and>
   \<not> isAlgorithm exampleEnv (Val ''bogus'')"
  by (simp add: bogusSession_def bogusProps_def exampleKey_def exampleEnv_def
      mount_def initial_def step_def commit_def runEffects_def expirationEffect_def
      loadBalancerEffect_def prefixEffect_def openEffect_def validate_def
      actualSubmit_def settled_def submitPath_def Let_def payloads_def
      List.map_filter_simps isAlgorithm_def)

text \<open>
  C2, amended. In a component that was mounted and has gone through any events, if every
  record it was given for editing carries one of the three enumerated algorithms, then
  every payload passed to \<^verbatim>\<open>createDynamicAccessKey\<close> or
  \<^verbatim>\<open>updateDynamicAccessKey\<close>, in the events so far or by a submission now, has one of
  the three values as its algorithm; and when no algorithm is selected at a submission
  it is \<^verbatim>\<open>RandomKeyOnEachConnection\<close> (the enumeration's values being non-empty
  strings).
\<close>

theorem algorithm_enumerated:
  fixes env :: "('d, 'e) env" and steps :: "('d props \<times> 'e event) list"
    and props0 :: "'d props" and b :: bool
  defines "c \<equiv> fst (run env steps (mount env props0 b))"
  assumes rec0: "enumerated env props0"
    and recs: "\<forall>x \<in> set steps. enumerated env (fst x)"
  shows "(\<forall>r \<in> set (payloads (snd (run env steps (mount env props0 b)))).
            isAlgorithm env (loadBalancerAlgorithm r)) \<and>
         (\<forall>r \<in> set (payloads (snd (step env props (Submit uuid outcome) c))).
            isAlgorithm env (loadBalancerAlgorithm r)) \<and>
         ((\<forall>a. algorithmValue env a \<noteq> []) \<and> \<not> truthy (selectedLoadBalancer c) \<longrightarrow>
          (\<forall>r \<in> set (payloads (snd (step env props (Submit uuid outcome) c))).
            loadBalancerAlgorithm r = Val (algorithmValue env RandomKeyOnEachConnection)))"
proof (intro conjI impI ballI)
  fix r
  assume "r \<in> set (payloads (snd (run env steps (mount env props0 b))))"
  with recs algorithmKnown_mount [OF rec0] show "isAlgorithm env (loadBalancerAlgorithm r)"
    by (rule run_payloads_known)
next
  fix r
  assume r: "r \<in> set (payloads (snd (step env props (Submit uuid outcome) c)))"
  have "algorithmKnown env c"
    unfolding c_def by (intro algorithmKnown_run algorithmKnown_mount rec0 recs)
  then show "isAlgorithm env (loadBalancerAlgorithm r)"
    using r by (rule step_payload_known)
next
  fix r
  assume hyp: "(\<forall>a. algorithmValue env a \<noteq> []) \<and> \<not> truthy (selectedLoadBalancer c)"
    and r: "r \<in> set (payloads (snd (step env props (Submit uuid outcome) c)))"
  from hyp have "algorithmInForm env c"
    unfolding c_def by (intro algorithmInForm_run algorithmInForm_mount rec0 recs) simp_all
  with hyp have "loadBalancerAlgorithm (form c) = Val (algorithmValue env RandomKeyOnEachConnection)"
    by (simp add: algorithmInForm_def)
  with r show "loadBalancerAlgorithm r = Val (algorithmValue env RandomKeyOnEachConnection)"
    by (auto simp add: payloads_step_Submit split: if_splits)
qed

lemma openedForNew_state:
  "openedForNew =
     \<lparr>isOpen = True, serverError = Val [],
      selectedExpirationDate = Undefined,
      selectedLoadBalancer = Null,
      selectedPrefix = Null,
      form = \<lparr>name = Val ''office'', path = Val [],
               loadBalancerAlgorithm = Val ''RandomKeyOnEachConnection'',
               expiresAt = Null, prefix = Null, id_field = Undefined\<rparr>\<rparr>"
  by (simp add: openedForNew_def exampleEnv_def newProps_def
      mount_def initial_def step_def commit_def runEffects_def expirationEffect_def
      loadBalancerEffect_def prefixEffect_def openEffect_def Let_def)

theorem algorithm_enumerated_witness:
  "enumerated exampleEnv editProps \<and>
   enumerated exampleEnv newProps \<and>
   (\<forall>a. algorithmValue exampleEnv a \<noteq> []) \<and>
   map loadBalancerAlgorithm
     (payloads (snd (step exampleEnv editProps (Submit ''3f2a'' None) openedForEdit))) =
     [Val ''UserIpAddress''] \<and>
   isAlgorithm exampleEnv (Val ''UserIpAddress'') \<and>
   \<not> truthy (selectedLoadBalancer openedForNew) \<and>
   map loadBalancerAlgorithm
     (payloads (snd (step exampleEnv newProps (Submit ''3f2a'' None) openedForNew))) =
     [Val ''RandomKeyOnEachConnection''] \<and>
   isAlgorithm exampleEnv (Val ''RandomKeyOnEachConnection'')"
proof -
  have edit0: "enumerated exampleEnv editProps"
    by (simp add: enumerated_def editProps_def exampleKey_def isAlgorithm_def exampleEnv_def)
  have edits: "\<forall>x \<in> set [(editProps, Open), (editProps, InputName ''office 2'')].
      enumerated exampleEnv (fst x)"
    using edit0 by simp
  have new0: "enumerated exampleEnv newProps"
    by (simp add: enumerated_def newProps_def)
  have news: "\<forall>x \<in> set [(newProps, Open), (newProps, InputName ''office'')].
      enumerated exampleEnv (fst x)"
    using new0 by simp
  have nonempty: "\<forall>a. algorithmValue exampleEnv a \<noteq> []"
    by (simp add: exampleEnv_def split: LoadBalancerAlgorithm.splits)
  have unselected: "\<not> truthy (selectedLoadBalancer openedForNew)"
    by (simp add: openedForNew_state)
  have sentEdit:
    "payloads (snd (step exampleEnv editProps (Submit ''3f2a'' None) openedForEdit)) =
      [\<lparr>name = Val ''office 2'', path = Val ''office-key'',
        loadBalancerAlgorithm = Val ''UserIpAddress'',
        expiresAt = Val ''2030-01-01T00:00'',
        prefix = Val ''HTTP request'', id_field = Val 7\<rparr>]"
    by (simp add: payloads_step_Submit openedForEdit_state validate_def submitPath_def
        exampleEnv_def editProps_def exampleKey_def)
  have sentNew:
    "payloads (snd (step exampleEnv newProps (Submit ''3f2a'' None) openedForNew)) =
      [\<lparr>name = Val ''office'', path = Val ''3f2a'',
        loadBalancerAlgorithm = Val ''RandomKeyOnEachConnection'',
        expiresAt = Null, prefix = Null, id_field = Undefined\<rparr>]"
    by (simp add: payloads_step_Submit openedForNew_state validate_def submitPath_def
        exampleEnv_def newProps_def)
  note edit = algorithm_enumerated [where env = exampleEnv and props = editProps
      and steps = "[(editProps, Open), (editProps, InputName ''office 2'')]"
      and ?props0.0 = editProps and b = False and uuid = "''3f2a''" and outcome = None,
      OF edit0 edits, folded openedForEdit_def]
  note new = algorithm_enumerated [where env = exampleEnv and props = newProps
      and steps = "[(newProps, Open), (newProps, InputName ''office'')]"
      and ?props0.0 = newProps and b = False and uuid = "''3f2a''" and outcome = None,
      OF new0 news, folded openedForNew_def]
  from edit sentEdit have "isAlgorithm exampleEnv (Val ''UserIpAddress'')"
    by simp
  moreover from new sentNew have "isAlgorithm exampleEnv (Val ''RandomKeyOnEachConnection'')"
    by simp
  moreover from new sentNew nonempty unselected have
    "Val ''RandomKeyOnEachConnection'' =
       Val (algorithmValue exampleEnv RandomKeyOnEachConnection)"
    by simp
  ultimately show ?thesis
    using edit0 new0 nonempty unselected sentEdit sentNew by simp
qed

section \<open>Properties of the message modal\<close>

text \<open>
  C9, as stated: with \<^verbatim>\<open>isDismissable\<close> left out the Ok button is the only control
  inside the dialog that closes it. It fails on the modal library's two hidden dismiss
  buttons, which no attribute removes.
\<close>

theorem only_ok_closes_counterexample:
  "dialogControls (MessageModal plainMessage) =
     [DismissButton, FooterButton ''Ok'', DismissButton]"
  by (simp add: dialogControls_def MessageModal_def plainMessage_def Let_def)

text \<open>
  C9, amended. When \<^verbatim>\<open>isDismissable\<close> is left out it defaults to false, and
  \<^verbatim>\<open>MessageModal\<close> tells the modal to hide the close button, to disable keyboard
  dismissal and not to be dismissable by the overlay; the one control it renders itself
  is the Ok button, wired to the disclosure's \<^verbatim>\<open>onClose\<close>. With \<^verbatim>\<open>isDismissable\<close>
  true it tells the modal to show the close button, to allow keyboard dismissal and to
  be dismissable by the overlay.
\<close>

theorem message_modal_dismissal:
  "(mm_isDismissable p = None \<longrightarrow>
      hideCloseButton (MessageModal p) \<and>
      \<not> isDismissable (MessageModal p) \<and>
      isKeyboardDismissDisabled (MessageModal p)) \<and>
   (mm_isDismissable p = Some True \<longrightarrow>
      \<not> hideCloseButton (MessageModal p) \<and>
      isDismissable (MessageModal p) \<and>
      \<not> isKeyboardDismissDisabled (MessageModal p)) \<and>
   footerButtons (MessageModal p) = [(''Ok'', DisclosureOnClose)]"
  by (simp add: MessageModal_def Let_def)

theorem message_modal_dismissal_witness:
  "hideCloseButton (MessageModal plainMessage) \<and>
   \<not> isDismissable (MessageModal plainMessage) \<and>
   isKeyboardDismissDisabled (MessageModal plainMessage) \<and>
   footerButtons (MessageModal plainMessage) = [(''Ok'', DisclosureOnClose)] \<and>
   \<not> hideCloseButton (MessageModal (plainMessage\<lparr>mm_isDismissable := Some True\<rparr>)) \<and>
   isDismissable (MessageModal (plainMessage\<lparr>mm_isDismissable := Some True\<rparr>)) \<and>
   \<not> isKeyboardDismissDisabled (MessageModal (plainMessage\<lparr>mm_isDismissable := Some True\<rparr>))"
  using message_modal_dismissal [where p = plainMessage]
    message_modal_dismissal [where p = "plainMessage\<lparr>mm_isDismissable := Some True\<rparr>"]
  by (simp add: plainMessage_def)

end
